theory Spec2Isabelle
  imports Complex_Main "HOL-Library.Sublist"
begin

section \<open>Python values shared by the service\<close>

text \<open>
  The exceptions the service raises and catches. Every class the handlers of
  \<^verbatim>\<open>app/main.py\<close> and \<^verbatim>\<open>app/services/training_service.py\<close> distinguish is a
  constructor; \<open>Exception\<close> stands for every other subclass of Python's
  \<^verbatim>\<open>Exception\<close>. The argument is the message, what \<^verbatim>\<open>str(e)\<close> returns.
  Floats are modelled as reals: arithmetic is exact, and a float that is not a number
  (NaN) is written out as \<open>None\<close> where the code can produce one.
\<close>

datatype py_exception = ValueError string | RuntimeError string | Exception string

fun str_of :: "py_exception \<Rightarrow> string" where
  "str_of (ValueError m) = m"
| "str_of (RuntimeError m) = m"
| "str_of (Exception m) = m"

text \<open>
  Python's \<^verbatim>\<open>round(x, 2)\<close> on a float: the exact value of \<open>x\<close> is rounded to the
  nearest multiple of 1/100, a tie going to the even neighbour.
\<close>

definition round_half_even :: "real \<Rightarrow> int" where
  "round_half_even x =
     (let f = floor x; d = x - of_int f
      in if d < 1 / 2 then f else if 1 / 2 < d then f + 1 else if even f then f else f + 1)"

definition py_round2 :: "real \<Rightarrow> real" where
  "py_round2 x = of_int (round_half_even (x * 100)) / 100"

section \<open>Request and response schemas (app/schemas/dispatch\_schemas.py)\<close>

record CandidateRequest =
  distance_m :: real
  distance_cat :: int
  past_perf :: real
  fault_history :: int
  fatigue_h :: real
  fault_severity :: int

text \<open>
  A pydantic \<^verbatim>\<open>Field(..., ge=lo, le=hi)\<close>: the field's name is reported when the value
  is below \<open>ge\<close> or above \<open>le\<close>; a bound that is not given is \<open>None\<close>.
\<close>

definition Field :: "string \<Rightarrow> 'a::linorder \<Rightarrow> 'a option \<Rightarrow> 'a option \<Rightarrow> string list" where
  "Field name v ge le =
     (if (case ge of None \<Rightarrow> True | Some lo \<Rightarrow> lo \<le> v) \<and>
         (case le of None \<Rightarrow> True | Some hi \<Rightarrow> v \<le> hi)
      then [] else [name])"

definition CandidateRequest_errors :: "CandidateRequest \<Rightarrow> string list" where
  "CandidateRequest_errors c =
     Field ''distance_m'' (distance_m c) (Some 0) None @
     Field ''distance_cat'' (distance_cat c) (Some 0) (Some 2) @
     Field ''past_perf'' (past_perf c) (Some 1) (Some 10) @
     Field ''fault_history'' (fault_history c) (Some 0) None @
     Field ''fatigue_h'' (fatigue_h c) (Some 0) (Some 24) @
     Field ''fault_severity'' (fault_severity c) (Some 1) (Some 3)"

text \<open>
  \<^verbatim>\<open>PredictRequest\<close>: a list of candidates with \<^verbatim>\<open>min_items=1\<close>. An error is located by
  the index of the candidate (none for the list itself) and the name of the field.
\<close>

type_synonym loc = "nat option \<times> string"

record PredictRequest =
  candidates :: "CandidateRequest list"

definition PredictRequest_errors :: "CandidateRequest list \<Rightarrow> loc list" where
  "PredictRequest_errors cs =
     (if length cs < 1 then [(None, ''candidates'')]
      else concat (map (\<lambda>(i, c). map (\<lambda>f. (Some i, f)) (CandidateRequest_errors c))
                       (enumerate 0 cs)))"

record PredictionResult =
  pr_index :: nat
  pr_score :: real
  pr_features :: "(string \<times> real) list"

record PredictResponse =
  best_index :: nat
  scores :: "real list"
  predictions :: "PredictionResult list"

text \<open>
  What a client receives instead of a response. \<open>HTTPException\<close> is raised by the
  handlers with a status code and a detail; \<open>RequestValidationError\<close> is the framework's
  answer when the body does not satisfy the request schema, given before the handler
  runs. \<^verbatim>\<open>app/main.py\<close> registers no handler of its own for it, so it is answered with the
  framework's status 422.
\<close>

datatype http_error = HTTPException nat string | RequestValidationError "loc list"

fun status_code :: "http_error \<Rightarrow> nat" where
  "status_code (HTTPException s d) = s"
| "status_code (RequestValidationError errs) = 422"

definition client_error :: "nat \<Rightarrow> bool" where
  "client_error s = (400 \<le> s \<and> s < 500)"

definition server_fault :: "nat \<Rightarrow> bool" where
  "server_fault s = (500 \<le> s \<and> s < 600)"

section \<open>Model store\<close>

text \<open>
  \<^verbatim>\<open>app/models/dispatch_model.py\<close> is imported by \<^verbatim>\<open>app/main.py\<close> but is not among the
  sources; the store is modelled from the specification (sections 3, 4.1 and 4.4).
\<close>

record ModelArtifact =
  regressor :: "real list \<Rightarrow> real"
  features :: "string list"
  art_random_seed :: int
  training_samples :: nat
  test_samples :: nat
  art_mae :: real
  art_r2 :: real

datatype store_state = NotLoaded | Loaded ModelArtifact | LoadFailed string

text \<open>
  Modelled from the spec: the feature encoder of \<^verbatim>\<open>dispatch_model.py\<close>. A candidate
  becomes the feature vector in the fixed column order
  \<open>[distance_m, distance_cat, past_perf, fault_history, fatigue_h, fault_severity]\<close>.
\<close>

definition feature_columns :: "string list" where
  "feature_columns = [''distance_m'', ''distance_cat'', ''past_perf'', ''fault_history'',
                      ''fatigue_h'', ''fault_severity'']"

definition encode :: "CandidateRequest \<Rightarrow> real list" where
  "encode c = [distance_m c, of_int (distance_cat c), past_perf c,
               of_int (fault_history c), fatigue_h c, of_int (fault_severity c)]"

text \<open>
  Modelled from the spec: \<open>is_loaded\<close> of \<^verbatim>\<open>dispatch_model.py\<close>, true iff the state is
  \<open>Loaded\<close>.
\<close>

fun is_loaded :: "store_state \<Rightarrow> bool" where
  "is_loaded (Loaded a) = True"
| "is_loaded st = False"

text \<open>
  Modelled from the spec: the index of the maximum score, ties broken by the lowest
  index. The specification says nothing about an empty list of scores.
\<close>

fun first_index :: "'a \<Rightarrow> 'a list \<Rightarrow> nat" where
  "first_index x [] = 0"
| "first_index x (y # ys) = (if x = y then 0 else Suc (first_index x ys))"

definition index_of_max :: "real list \<Rightarrow> nat" where
  "index_of_max ss = first_index (Max (set ss)) ss"

text \<open>
  Modelled from the spec: \<open>predict\<close> of \<^verbatim>\<open>dispatch_model.py\<close>. It fails with
  ModelUnavailableError when the state is not \<open>Loaded\<close>; \<^verbatim>\<open>app/main.py\<close> catches that
  error as a \<^verbatim>\<open>RuntimeError\<close>. Otherwise every candidate is encoded and scored by the
  regressor, and the result is the index of the maximum score, the raw scores in input
  order, and for each candidate its index, its score and its features by name.
\<close>

definition candidate_detail :: "ModelArtifact \<Rightarrow> nat \<times> CandidateRequest \<Rightarrow> PredictionResult" where
  "candidate_detail a = (\<lambda>(i, c).
     \<lparr>pr_index = i, pr_score = regressor a (encode c),
      pr_features = zip feature_columns (encode c)\<rparr>)"

definition model_predict ::
  "store_state \<Rightarrow> CandidateRequest list \<Rightarrow> py_exception + (nat \<times> real list \<times> PredictionResult list)" where
  "model_predict st cs =
     (case st of
        Loaded a \<Rightarrow>
          (let ss = map (\<lambda>c. regressor a (encode c)) cs
           in Inr (index_of_max ss, ss, map (candidate_detail a) (enumerate 0 cs)))
      | NotLoaded \<Rightarrow> Inl (RuntimeError ''Model not loaded'')
      | LoadFailed e \<Rightarrow> Inl (RuntimeError ''Model not loaded''))"

section \<open>The scoring endpoint (app/main.py, predict)\<close>

text \<open>
  The handler of \<^verbatim>\<open>POST /api/predict\<close>. The best index is the one the store returned, the
  scores of the response are the store's scores rounded to two places, and each
  exception class of the store is translated to its status code.
\<close>

definition predict :: "store_state \<Rightarrow> PredictRequest \<Rightarrow> http_error + PredictResponse" where
  "predict model request =
     (case model_predict model (candidates request) of
        Inr (best_idx, ss, preds) \<Rightarrow>
          Inr \<lparr>best_index = best_idx, scores = map py_round2 ss, predictions = preds\<rparr>
      | Inl (ValueError m) \<Rightarrow> Inl (HTTPException 400 m)
      | Inl (RuntimeError m) \<Rightarrow> Inl (HTTPException 503 (''Model not available: '' @ m))
      | Inl (Exception m) \<Rightarrow> Inl (HTTPException 500 (''Prediction failed: '' @ m)))"

text \<open>
  A request as it arrives: the body is checked against \<^verbatim>\<open>PredictRequest\<close> first, and
  the handler runs only on a body that satisfies the schema.
\<close>

definition api_predict :: "store_state \<Rightarrow> CandidateRequest list \<Rightarrow> http_error + PredictResponse" where
  "api_predict model cs =
     (case PredictRequest_errors cs of
        [] \<Rightarrow> predict model \<lparr>candidates = cs\<rparr>
      | e # es \<Rightarrow> Inl (RequestValidationError (e # es)))"

section \<open>The training script (scripts/train\_model.py)\<close>


text \<open>
  A pandas frame is held by columns, one list per column, all of one length.
\<close>

record DataFrame =
  col_distance_m :: "real list"
  col_past_perf :: "real list"
  col_fault_history :: "int list"
  col_fatigue_h :: "real list"
  col_fault_severity :: "int list"
  col_distance_cat :: "int list"

definition n_rows :: "DataFrame \<Rightarrow> nat" where
  "n_rows df = length (col_distance_m df)"

definition well_formed :: "DataFrame \<Rightarrow> bool" where
  "well_formed df =
     (length (col_past_perf df) = n_rows df \<and> length (col_fault_history df) = n_rows df \<and>
      length (col_fatigue_h df) = n_rows df \<and> length (col_fault_severity df) = n_rows df \<and>
      length (col_distance_cat df) = n_rows df)"

text \<open>
  The world the training script runs in: the state of numpy's module-level random
  generator, which is global to the process; the state numpy would derive from the
  entropy of the operating system when it is asked to seed itself without a seed; and
  the file system, the content of each file by path.
\<close>

type_synonym bytes = "nat list"

type_synonym file_system = "string \<Rightarrow> bytes option"

record 'g world =
  np_state :: 'g
  os_entropy :: 'g
  files :: file_system




text \<open>\<^verbatim>\<open>np.clip(x, lo, hi)\<close> and \<^verbatim>\<open>Series.clip(lo, hi)\<close>, on one value.\<close>

definition clip :: "real \<Rightarrow> real \<Rightarrow> real \<Rightarrow> real" where
  "clip lo hi x = min hi (max lo x)"


text \<open>
  Series arithmetic, element by element. \<open>series_max\<close> and \<open>series_min\<close> are read only
  where the series has a row: on an empty series pandas returns NaN, and no element is
  computed from it.
\<close>

definition series_max :: "real list \<Rightarrow> real" where
  "series_max xs = Max (set xs)"

definition series_min :: "real list \<Rightarrow> real" where
  "series_min xs = Min (set xs)"

definition series_add :: "real list \<Rightarrow> real list \<Rightarrow> real list" where
  "series_add xs ys = map2 (+) xs ys"

definition series_scale :: "real \<Rightarrow> real list \<Rightarrow> real list" where
  "series_scale k xs = map ((*) k) xs"

text \<open>
  A float division whose divisor is zero gives no number (NaN for 0/0, an infinity
  otherwise): \<open>None\<close>.
\<close>

definition float_div :: "real \<Rightarrow> real \<Rightarrow> real option" where
  "float_div a b = (if b = 0 then None else Some (a / b))"

text \<open>
  The distance score of one row, \<^verbatim>\<open>(1 - d / (max + 1e-6)).clip(0, 1)\<close>. The divisor is
  zero only when the largest distance is \<open>-1e-6\<close>; every distance is negative then, the
  float quotient is minus infinity, one minus it is plus infinity, and the clip gives 1.
\<close>

definition dist_score_of :: "real \<Rightarrow> real \<Rightarrow> real" where
  "dist_score_of mx d =
     (if mx + 1 / 1000000 = 0 then 1 else clip 0 1 (1 - d / (mx + 1 / 1000000)))"

text \<open>
  The fault-history score of one row, \<^verbatim>\<open>(h / (max + 1e-6)).clip(0, 1)\<close>. The counts are
  integers, so the divisor is never zero.
\<close>

definition fh_score_of :: "real \<Rightarrow> real \<Rightarrow> real" where
  "fh_score_of mx h = clip 0 1 (h / (mx + 1 / 1000000))"

text \<open>
  \<^verbatim>\<open>calculate_rule_based_score\<close>: the five scores, their weighted sum, and the
  normalisation \<^verbatim>\<open>(rule - min) / (max - min) * 100\<close>, whose divisor is not guarded.
\<close>

definition rule_score_of :: "DataFrame \<Rightarrow> real list" where
  "rule_score_of df =
     (let dist_score = map (dist_score_of (series_max (col_distance_m df))) (col_distance_m df);
          fh = map of_int (col_fault_history df);
          fh_score = map (fh_score_of (series_max fh)) fh;
          fatigue_score = map (\<lambda>f. clip 0 1 (1 - f / 24)) (col_fatigue_h df);
          severity_score = map (\<lambda>s. of_int s / 3) (col_fault_severity df);
          perf_score = map (\<lambda>p. p / 10) (col_past_perf df)
      in series_add (series_add (series_add (series_add
           (series_scale (45 / 100) dist_score)
           (series_scale (25 / 100) fh_score))
           (series_scale (15 / 100) fatigue_score))
           (series_scale (5 / 100) severity_score))
           (series_scale (10 / 100) perf_score))"

definition calculate_rule_based_score :: "DataFrame \<Rightarrow> real option list" where
  "calculate_rule_based_score df =
     (let rule_score = rule_score_of df;
          lo = series_min rule_score;
          hi = series_max rule_score
      in map (\<lambda>r. map_option (\<lambda>q. q * 100) (float_div (r - lo) (hi - lo))) rule_score)"

text \<open>
  The label as the specification words it, for comparison: the distance and
  fault-history scores divide by the largest distance and the largest count themselves.
\<close>

definition spec_rule_score_of :: "DataFrame \<Rightarrow> real list" where
  "spec_rule_score_of df =
     (let max_distance = series_max (col_distance_m df);
          fh = map of_int (col_fault_history df);
          max_history = series_max fh;
          dist_score = map (\<lambda>d. clip 0 1 (1 - d / max_distance)) (col_distance_m df);
          fh_score = map (\<lambda>h. clip 0 1 (h / max_history)) fh;
          fatigue_score = map (\<lambda>f. clip 0 1 (1 - f / 24)) (col_fatigue_h df);
          severity_score = map (\<lambda>s. of_int s / 3) (col_fault_severity df);
          perf_score = map (\<lambda>p. p / 10) (col_past_perf df)
      in series_add (series_add (series_add (series_add
           (series_scale (45 / 100) dist_score)
           (series_scale (25 / 100) fh_score))
           (series_scale (15 / 100) fatigue_score))
           (series_scale (5 / 100) severity_score))
           (series_scale (10 / 100) perf_score))"

definition spec_rule_based_label :: "DataFrame \<Rightarrow> real option list" where
  "spec_rule_based_label df =
     (let rule_score = spec_rule_score_of df;
          lo = series_min rule_score;
          hi = series_max rule_score
      in map (\<lambda>r. map_option (\<lambda>q. q * 100) (float_div (r - lo) (hi - lo))) rule_score)"










record 'm train_output =
  out_model :: 'm
  out_features :: "string list"
  out_mae :: real
  out_r2 :: real
  out_model_path :: string




section \<open>The training service (app/services/training\_service.py)\<close>

record TrainingService =
  model_path :: "string option"
  training_in_progress :: bool

definition is_training :: "TrainingService \<Rightarrow> bool" where
  "is_training svc = training_in_progress svc"

text \<open>The dictionary \<^verbatim>\<open>TrainingService.train\<close> returns: \<^verbatim>\<open>success\<close> is true or false.\<close>

datatype train_result =
  TrainSuccess real real string "string list" "int option" "int option"
| TrainFailure string

fun success :: "train_result \<Rightarrow> bool" where
  "success (TrainSuccess mae r2 path fs n seed) = True"
| "success (TrainFailure err) = False"

text \<open>
  Lines 45 to 49 of \<^verbatim>\<open>TrainingService.train\<close>: the check of the flag, made before the
  \<^verbatim>\<open>try\<close>, and its setting, the first statement inside. The result is the exception
  raised by the check, or the service as it is while the training session runs.
\<close>

definition train_enter :: "TrainingService \<Rightarrow> py_exception + TrainingService" where
  "train_enter svc =
     (if training_in_progress svc
      then Inl (RuntimeError ''Training already in progress'')
      else Inr (svc\<lparr>training_in_progress := True\<rparr>))"

text \<open>
  \<^verbatim>\<open>TrainingService.train\<close>. \<open>get_train_model\<close> is the outcome of the lazy import of the
  training function, which may raise; the function it yields runs in a world \<open>'w\<close> and
  may raise too. Once the flag is set, every exception is turned into a failure result,
  and the \<^verbatim>\<open>finally\<close> clause clears the flag. The number of samples and the seed are
  passed on as the caller gives them, \<^verbatim>\<open>None\<close> included.
\<close>

type_synonym ('m, 'w) train_model_func =
  "int option \<Rightarrow> int option \<Rightarrow> string option \<Rightarrow> 'w \<Rightarrow> (py_exception + 'm train_output) \<times> 'w"

definition TrainingService_train ::
  "(py_exception + ('m, 'w) train_model_func) \<Rightarrow> int option \<Rightarrow> int option \<Rightarrow>
   TrainingService \<times> 'w \<Rightarrow> (py_exception + train_result) \<times> (TrainingService \<times> 'w)" where
  "TrainingService_train get_train_model n_samples random_seed sw =
     (let svc = fst sw; w = snd sw
      in case train_enter svc of
           Inl e \<Rightarrow> (Inl e, (svc, w))
         | Inr svc1 \<Rightarrow>
             (let (result, w') =
                    (case get_train_model of
                       Inl e \<Rightarrow> (TrainFailure (str_of e), w)
                     | Inr train_model_func \<Rightarrow>
                         (case train_model_func n_samples random_seed (model_path svc1) w of
                            (Inr out, w1) \<Rightarrow>
                              (TrainSuccess (out_mae out) (out_r2 out) (out_model_path out)
                                 (out_features out) n_samples random_seed, w1)
                          | (Inl e, w1) \<Rightarrow> (TrainFailure (str_of e), w1)))
              in (Inr result, (svc1\<lparr>training_in_progress := False\<rparr>, w'))))"

section \<open>The training endpoint (app/main.py, train)\<close>

text \<open>
  Modelled from the spec: \<open>load\<close> of \<^verbatim>\<open>dispatch_model.py\<close>. A store that is loaded and not
  forced is left as it is; otherwise the artifact is read from the configured path
  (\<open>read\<close>, which may fail), and the store becomes \<open>Loaded\<close> or \<open>LoadFailed\<close>.
\<close>

definition model_load ::
  "('w \<Rightarrow> py_exception + ModelArtifact) \<Rightarrow> bool \<Rightarrow> store_state \<Rightarrow> 'w \<Rightarrow> bool \<times> store_state" where
  "model_load read force_reload st w =
     (if is_loaded st \<and> \<not> force_reload then (True, st)
      else case read w of
             Inr a \<Rightarrow> (True, Loaded a)
           | Inl e \<Rightarrow> (False, LoadFailed (str_of e)))"

text \<open>
  \<^verbatim>\<open>TrainRequest\<close>: both fields are \<^verbatim>\<open>Optional[int]\<close>, so a body may give \<^verbatim>\<open>null\<close> for
  either, and the handler passes the value on as it is.
\<close>

record TrainRequest =
  req_n_samples :: "int option"
  req_random_seed :: "int option"

record 'w app =
  model :: store_state
  training_service :: TrainingService
  world :: 'w

text \<open>
  The handler of \<^verbatim>\<open>POST /api/train\<close>. A service that is training is answered with 409.
  Otherwise the service trains; only a result that reports success replaces the store
  (\<^verbatim>\<open>get_model(reset=True)\<close> gives a store that is not loaded, which then loads with
  \<^verbatim>\<open>force_reload=True\<close>); a failure result and an exception are answered with 500.
\<close>

definition train ::
  "(py_exception + ('m, 'w) train_model_func) \<Rightarrow> ('w \<Rightarrow> py_exception + ModelArtifact) \<Rightarrow>
   TrainRequest \<Rightarrow> 'w app \<Rightarrow> (http_error + train_result) \<times> 'w app" where
  "train get_train_model read request s =
     (if is_training (training_service s)
      then (Inl (HTTPException 409 ''Training already in progress''), s)
      else
        (case TrainingService_train get_train_model (req_n_samples request)
                (req_random_seed request) (training_service s, world s) of
           (Inl e, (svc, w)) \<Rightarrow>
             (Inl (HTTPException 500 (''Training failed: '' @ str_of e)),
              s\<lparr>training_service := svc, world := w\<rparr>)
         | (Inr result, (svc, w)) \<Rightarrow>
             (if success result
              then (Inr result,
                    s\<lparr>model := snd (model_load read True NotLoaded w),
                      training_service := svc, world := w\<rparr>)
              else (Inl (HTTPException 500
                           (case result of TrainFailure err \<Rightarrow> err
                                         | TrainSuccess mae r2 path fs n seed \<Rightarrow> ''Training failed'')),
                    s\<lparr>training_service := svc, world := w\<rparr>))))"

section \<open>Calls of the training endpoint on the event loop\<close>

text \<open>
  \<^verbatim>\<open>TrainingService.train\<close> statement by statement, for calls that share one service.
  A call is at the check of the flag (line 45), at its setting (line 49), at the call
  of the training function (lines 53 to 78), at the clearing in \<^verbatim>\<open>finally\<close> (line 80),
  or has left by the \<^verbatim>\<open>raise\<close> of line 46 or by a \<^verbatim>\<open>return\<close>.
\<close>

datatype pc = AtCheck | AtSet | AtCall | AtClear | Raised | Returned

fun caller_step :: "bool \<Rightarrow> pc \<Rightarrow> bool \<times> pc" where
  "caller_step flag AtCheck = (if flag then (flag, Raised) else (flag, AtSet))"
| "caller_step flag AtSet = (True, AtCall)"
| "caller_step flag AtCall = (flag, AtClear)"
| "caller_step flag AtClear = (False, Returned)"
| "caller_step flag Raised = (flag, Raised)"
| "caller_step flag Returned = (flag, Returned)"

fun statements_left :: "pc \<Rightarrow> nat" where
  "statements_left AtCheck = 4"
| "statements_left AtSet = 3"
| "statements_left AtCall = 2"
| "statements_left AtClear = 1"
| "statements_left Raised = 0"
| "statements_left Returned = 0"

text \<open>
  The only caller of the method is the handler of \<^verbatim>\<open>POST /api/train\<close>, a coroutine
  (\<^verbatim>\<open>async def\<close>) whose body has no \<^verbatim>\<open>await\<close>, and the method itself is an ordinary
  function: the event loop runs a call it has started until the call has left, and only
  then starts another. \<open>run_call\<close> lists the flag and the position of a call after each
  of its statements.
\<close>

function run_call :: "bool \<Rightarrow> pc \<Rightarrow> (bool \<times> pc) list" where
  "run_call flag p =
     (if statements_left p = 0 then []
      else caller_step flag p # run_call (fst (caller_step flag p)) (snd (caller_step flag p)))"
  by pat_completeness auto

termination
proof (relation "measure (\<lambda>(flag, p). statements_left p)")
  show "wf (measure (\<lambda>(flag, p). statements_left p))" by simp
next
  fix flag :: bool and p :: pc
  assume "statements_left p \<noteq> 0"
  then show "((fst (caller_step flag p), snd (caller_step flag p)), (flag, p))
               \<in> measure (\<lambda>(flag, p). statements_left p)"
    by (cases p) auto
qed

declare run_call.simps [simp del]




section \<open>Properties of the scoring endpoint\<close>

lemma first_index_less: "x \<in> set xs \<Longrightarrow> first_index x xs < length xs"
  by (induction xs) auto

lemma first_index_nth: "x \<in> set xs \<Longrightarrow> xs ! first_index x xs = x"
  by (induction xs) auto

lemma first_index_least: "i < first_index x xs \<Longrightarrow> xs ! i \<noteq> x"
proof (induction xs arbitrary: i)
  case Nil
  then show ?case by simp
next
  case (Cons y ys)
  show ?case
  proof (cases i)
    case 0
    with Cons.prems show ?thesis by (auto split: if_splits)
  next
    case (Suc j)
    with Cons show ?thesis by (auto split: if_splits)
  qed
qed

lemma index_of_max_less: "ss \<noteq> [] \<Longrightarrow> index_of_max ss < length ss"
  unfolding index_of_max_def by (rule first_index_less) simp

lemma index_of_max_nth: "ss \<noteq> [] \<Longrightarrow> ss ! index_of_max ss = Max (set ss)"
  unfolding index_of_max_def by (rule first_index_nth) simp

lemma index_of_max_ge:
  assumes "i < length ss"
  shows "ss ! i \<le> ss ! index_of_max ss"
proof -
  from assms have ne: "ss \<noteq> []" by auto
  from assms have "ss ! i \<in> set ss" by simp
  then have "ss ! i \<le> Max (set ss)" by simp
  with ne show ?thesis by (simp add: index_of_max_nth)
qed

lemma index_of_max_first:
  assumes "i < index_of_max ss"
  shows "ss ! i < ss ! index_of_max ss"
proof -
  from assms have ne: "ss \<noteq> []" by (auto simp: index_of_max_def)
  from assms have neq: "ss ! i \<noteq> Max (set ss)"
    unfolding index_of_max_def by (rule first_index_least)
  from assms index_of_max_less [OF ne] have "i < length ss" by simp
  then have "ss ! i \<le> ss ! index_of_max ss" by (rule index_of_max_ge)
  with neq ne show ?thesis by (simp add: index_of_max_nth)
qed

lemma round_half_even_mono:
  assumes "x \<le> y"
  shows "round_half_even x \<le> round_half_even y"
proof (cases "floor x = floor y")
  case True
  with assms have "x - of_int (floor x) \<le> y - of_int (floor y)" by simp
  with True show ?thesis by (auto simp: round_half_even_def Let_def)
next
  case False
  with assms have lt: "floor x < floor y" by (simp add: floor_mono order.not_eq_order_implies_strict)
  have "round_half_even x \<le> floor x + 1" by (auto simp: round_half_even_def Let_def)
  moreover have "floor y \<le> round_half_even y" by (auto simp: round_half_even_def Let_def)
  ultimately show ?thesis using lt by linarith
qed

lemma py_round2_mono: "x \<le> y \<Longrightarrow> py_round2 x \<le> py_round2 y"
  unfolding py_round2_def by (simp add: round_half_even_mono divide_right_mono)

lemma round_half_even_close: "\<bar>of_int (round_half_even x) - x\<bar> \<le> 1 / 2"
proof -
  have "of_int (floor x) \<le> x" and "x < of_int (floor x) + 1" by linarith+
  then show ?thesis by (auto simp: round_half_even_def Let_def)
qed

lemma py_round2_close: "\<bar>py_round2 x - x\<bar> \<le> 1 / 200"
proof -
  have e: "py_round2 x - x = (of_int (round_half_even (x * 100)) - x * 100) / 100"
    by (simp add: py_round2_def diff_divide_distrib)
  have "\<bar>py_round2 x - x\<bar> = \<bar>(of_int (round_half_even (x * 100)) - x * 100) / 100\<bar>"
    by (simp only: e)
  also have "\<dots> = \<bar>of_int (round_half_even (x * 100)) - x * 100\<bar> / 100"
    by simp
  also have "\<dots> \<le> (1 / 2) / 100"
    using round_half_even_close [of "x * 100"] by (simp add: divide_right_mono)
  finally show ?thesis by simp
qed

lemma py_round2_hundredths: "\<exists>k::int. py_round2 x = of_int k / 100"
  unfolding py_round2_def by blast

lemma round_half_even_tie:
  "round_half_even (of_int k + 1 / 2) = (if even k then k else k + 1)"
proof -
  have "floor (of_int k + 1 / 2 :: real) = k" by linarith
  then show ?thesis by (simp add: round_half_even_def Let_def)
qed

lemma py_round2_tie:
  assumes "x * 100 = of_int k + 1 / 2"
  shows "py_round2 x = of_int (if even k then k else k + 1) / 100"
  by (simp add: py_round2_def assms round_half_even_tie)

lemma predict_loaded:
  "predict (Loaded a) \<lparr>candidates = cs\<rparr> =
     Inr \<lparr>best_index = index_of_max (map (\<lambda>c. regressor a (encode c)) cs),
          scores = map py_round2 (map (\<lambda>c. regressor a (encode c)) cs),
          predictions = map (candidate_detail a) (enumerate 0 cs)\<rparr>"
  by (simp add: predict_def model_predict_def Let_def)

lemma valid_request_nonempty: "PredictRequest_errors cs = [] \<Longrightarrow> cs \<noteq> []"
  by (auto simp: PredictRequest_errors_def)

lemma api_predict_valid: "PredictRequest_errors cs = [] \<Longrightarrow> api_predict st cs = predict st \<lparr>candidates = cs\<rparr>"
  by (simp add: api_predict_def)

text \<open>
  Claim C1. For every request that satisfies the schema (so it has at least one
  candidate) and a loaded store, the scoring endpoint answers with a best index inside
  the list and as many scores as candidates. The best index is the index of the maximum
  of the unrounded scores of the regressor, the lowest such index: no score is above the
  one at the best index and every score before it is strictly below. The scores of the
  response are the unrounded scores rounded to two places, computed after the best
  index: each is a whole number of hundredths, at most half a hundredth away from the
  unrounded score, and an unrounded score half-way between two hundredths goes to the
  even one. As rounding is monotone, no rounded score is above the rounded score at the
  best index either.
\<close>

theorem predict_best_index_on_raw_scores:
  assumes "PredictRequest_errors cs = []"
  shows "\<exists>resp. api_predict (Loaded a) cs = Inr resp \<and>
           best_index resp < length cs \<and>
           length (scores resp) = length cs \<and>
           best_index resp = index_of_max (map (\<lambda>c. regressor a (encode c)) cs) \<and>
           scores resp = map py_round2 (map (\<lambda>c. regressor a (encode c)) cs) \<and>
           (\<forall>i < length cs. regressor a (encode (cs ! i)) \<le> regressor a (encode (cs ! best_index resp))) \<and>
           (\<forall>i < best_index resp. regressor a (encode (cs ! i)) < regressor a (encode (cs ! best_index resp))) \<and>
           (\<forall>i < length cs. scores resp ! i \<le> scores resp ! best_index resp) \<and>
           (\<forall>i < length cs.
              (\<exists>k::int. scores resp ! i = of_int k / 100) \<and>
              \<bar>scores resp ! i - regressor a (encode (cs ! i))\<bar> \<le> 1 / 200 \<and>
              (\<forall>k::int. regressor a (encode (cs ! i)) * 100 = of_int k + 1 / 2 \<longrightarrow>
                 scores resp ! i = of_int (if even k then k else k + 1) / 100))"
proof -
  let ?raw = "map (\<lambda>c. regressor a (encode c)) cs"
  let ?b = "index_of_max ?raw"
  from assms have ne: "?raw \<noteq> []" by (simp add: valid_request_nonempty)
  have b: "?b < length cs" using index_of_max_less [OF ne] by simp
  have ge: "\<And>i. i < length cs \<Longrightarrow> ?raw ! i \<le> ?raw ! ?b"
    by (rule index_of_max_ge) simp
  have first: "\<And>i. i < ?b \<Longrightarrow> ?raw ! i < ?raw ! ?b"
    by (rule index_of_max_first)
  have ge': "\<forall>i < length cs. regressor a (encode (cs ! i)) \<le> regressor a (encode (cs ! ?b))"
    using ge b by simp
  have first': "\<forall>i < ?b. regressor a (encode (cs ! i)) < regressor a (encode (cs ! ?b))"
  proof (intro allI impI)
    fix i assume i: "i < ?b"
    with b have "i < length cs" by simp
    with first [OF i] b show "regressor a (encode (cs ! i)) < regressor a (encode (cs ! ?b))" by simp
  qed
  have rounded: "\<forall>i < length cs. map py_round2 ?raw ! i \<le> map py_round2 ?raw ! ?b"
    using ge b by (simp add: py_round2_mono)
  have places: "\<forall>i < length cs.
      (\<exists>k::int. map py_round2 ?raw ! i = of_int k / 100) \<and>
      \<bar>map py_round2 ?raw ! i - regressor a (encode (cs ! i))\<bar> \<le> 1 / 200 \<and>
      (\<forall>k::int. regressor a (encode (cs ! i)) * 100 = of_int k + 1 / 2 \<longrightarrow>
         map py_round2 ?raw ! i = of_int (if even k then k else k + 1) / 100)"
  proof (intro allI impI conjI)
    fix i assume i: "i < length cs"
    then have v: "map py_round2 ?raw ! i = py_round2 (regressor a (encode (cs ! i)))" by simp
    show "\<exists>k::int. map py_round2 ?raw ! i = of_int k / 100"
      unfolding v by (rule py_round2_hundredths)
    show "\<bar>map py_round2 ?raw ! i - regressor a (encode (cs ! i))\<bar> \<le> 1 / 200"
      unfolding v by (rule py_round2_close)
    fix k :: int
    assume "regressor a (encode (cs ! i)) * 100 = of_int k + 1 / 2"
    then show "map py_round2 ?raw ! i = of_int (if even k then k else k + 1) / 100"
      unfolding v by (rule py_round2_tie)
  qed
  have resp: "api_predict (Loaded a) cs =
      Inr \<lparr>best_index = ?b, scores = map py_round2 ?raw,
           predictions = map (candidate_detail a) (enumerate 0 cs)\<rparr>"
    by (simp add: api_predict_valid [OF assms] predict_loaded)
  show ?thesis
    unfolding resp using b ge' first' rounded places by simp
qed

text \<open>
  The claim at three candidates whose scores are 87.451, 87.454 and 87.125: the best
  index is 1, decided on the unrounded scores, and the response shows 87.45 twice and
  87.12, the even neighbour of the third score.
\<close>

theorem predict_best_index_witness:
  "PredictRequest_errors
     [\<lparr>distance_m = 87451 / 1000, distance_cat = 0, past_perf = 8, fault_history = 2,
       fatigue_h = 4, fault_severity = 3\<rparr>,
      \<lparr>distance_m = 87454 / 1000, distance_cat = 0, past_perf = 6, fault_history = 0,
       fatigue_h = 8, fault_severity = 3\<rparr>,
      \<lparr>distance_m = 87125 / 1000, distance_cat = 0, past_perf = 6, fault_history = 0,
       fatigue_h = 8, fault_severity = 3\<rparr>] = [] \<and>
   (\<exists>resp. api_predict
        (Loaded \<lparr>regressor = (\<lambda>v. v ! 0), features = feature_columns, art_random_seed = 42,
                 training_samples = 2400, test_samples = 600, art_mae = 1, art_r2 = 1\<rparr>)
        [\<lparr>distance_m = 87451 / 1000, distance_cat = 0, past_perf = 8, fault_history = 2,
          fatigue_h = 4, fault_severity = 3\<rparr>,
         \<lparr>distance_m = 87454 / 1000, distance_cat = 0, past_perf = 6, fault_history = 0,
          fatigue_h = 8, fault_severity = 3\<rparr>,
         \<lparr>distance_m = 87125 / 1000, distance_cat = 0, past_perf = 6, fault_history = 0,
          fatigue_h = 8, fault_severity = 3\<rparr>] = Inr resp \<and>
      best_index resp = 1 \<and> scores resp = [8745 / 100, 8745 / 100, 8712 / 100])"
  (is "?valid \<and> (\<exists>resp. api_predict (Loaded ?a) ?cs = Inr resp \<and> _ \<and> _)")
proof -
  have h: ?valid
    by (simp add: PredictRequest_errors_def CandidateRequest_errors_def Field_def enumerate_eq_zip)
  from predict_best_index_on_raw_scores [OF h, of ?a]
  obtain resp where r: "api_predict (Loaded ?a) ?cs = Inr resp"
    and b: "best_index resp = index_of_max (map (\<lambda>c. regressor ?a (encode c)) ?cs)"
    and s: "scores resp = map py_round2 (map (\<lambda>c. regressor ?a (encode c)) ?cs)"
    by blast
  from b have "best_index resp = 1"
    by (simp add: index_of_max_def encode_def)
  moreover from s have "scores resp = [8745 / 100, 8745 / 100, 8712 / 100]"
    by (simp add: encode_def py_round2_def round_half_even_def Let_def)
  ultimately show ?thesis using h r by blast
qed

text \<open>
  Claim C9. In every state of the store other than \<open>Loaded\<close> the store's predict fails
  with the model-unavailable error, the handler answers it with status 503 and a detail
  that starts with "Model not available: ", and so does the endpoint for every request
  that satisfies the schema. The status is not a client error and differs from the
  status of every validation error.
\<close>

theorem unloaded_store_is_service_unavailable:
  assumes "\<not> is_loaded st"
  shows "\<exists>m. model_predict st (candidates request) = Inl (RuntimeError m) \<and>
           predict st request = Inl (HTTPException 503 (''Model not available: '' @ m)) \<and>
           (PredictRequest_errors cs = [] \<longrightarrow>
              api_predict st cs = Inl (HTTPException 503 (''Model not available: '' @ m))) \<and>
           status_code (HTTPException 503 (''Model not available: '' @ m)) = 503 \<and>
           \<not> client_error (status_code (HTTPException 503 (''Model not available: '' @ m))) \<and>
           (\<forall>errs. status_code (RequestValidationError errs) \<noteq> 503)"
proof -
  from assms have mp: "\<And>xs. model_predict st xs = Inl (RuntimeError ''Model not loaded'')"
    by (cases st) (simp_all add: model_predict_def)
  then have "\<And>r. predict st r = Inl (HTTPException 503 (''Model not available: '' @ ''Model not loaded''))"
    by (simp add: predict_def)
  with mp show ?thesis
    by (auto simp: api_predict_def client_error_def)
qed

text \<open>The claim at a store whose load failed and a request with one valid candidate.\<close>

theorem unloaded_store_witness:
  "\<not> is_loaded (LoadFailed ''missing file'') \<and>
   PredictRequest_errors [\<lparr>distance_m = 1250, distance_cat = 1, past_perf = 8, fault_history = 2,
                           fatigue_h = 4, fault_severity = 3\<rparr>] = [] \<and>
   (\<exists>d. api_predict (LoadFailed ''missing file'')
           [\<lparr>distance_m = 1250, distance_cat = 1, past_perf = 8, fault_history = 2,
             fatigue_h = 4, fault_severity = 3\<rparr>] = Inl (HTTPException 503 d))"
  (is "?unl \<and> ?valid \<and> (\<exists>d. api_predict ?st ?cs = _)")
proof -
  have u: ?unl by simp
  have v: ?valid
    by (simp add: PredictRequest_errors_def CandidateRequest_errors_def Field_def enumerate_eq_zip)
  from unloaded_store_is_service_unavailable [OF u, of "\<lparr>candidates = ?cs\<rparr>" ?cs] v
  have "\<exists>d. api_predict ?st ?cs = Inl (HTTPException 503 d)" by auto
  with u v show ?thesis by blast
qed

section \<open>Properties of the training service and the training endpoint\<close>

text \<open>
  Claim C3. Every call of \<^verbatim>\<open>TrainingService.train\<close> that starts a training session (the
  flag is not set when it is called) returns a result and leaves the flag cleared,
  whether the import of the training function raised, the training function raised, or
  it returned: \<open>is_training\<close> is false afterwards.
\<close>

theorem train_clears_in_progress_flag:
  assumes "\<not> training_in_progress svc"
  shows "(\<exists>result. fst (TrainingService_train gtm n seed (svc, w)) = Inr result) \<and>
         \<not> is_training (fst (snd (TrainingService_train gtm n seed (svc, w)))) \<and>
         fst (snd (TrainingService_train gtm n seed (svc, w))) = svc"
  using assms
  by (auto simp: TrainingService_train_def train_enter_def Let_def is_training_def
           split: sum.splits prod.splits)

text \<open>The claim at a training function that raises.\<close>

theorem train_clears_in_progress_flag_witness:
  "\<not> training_in_progress \<lparr>model_path = None, training_in_progress = False\<rparr> \<and>
   \<not> is_training (fst (snd (TrainingService_train
        (Inr (\<lambda>n s p w. (Inl (ValueError ''fit failed''), w))
           :: py_exception + (unit, unit) train_model_func)
        (Some 500) (Some 7) (\<lparr>model_path = None, training_in_progress = False\<rparr>, ()))))"
  (is "?h \<and> \<not> is_training (fst (snd (TrainingService_train ?g ?n ?seed (?svc, ()))))")
proof -
  have h: ?h by simp
  from train_clears_in_progress_flag [OF h, of ?g ?n ?seed "()"] h show ?thesis by blast
qed

text \<open>
  Claim C4. When the import of the training function or the training function itself
  raises, \<^verbatim>\<open>TrainingService.train\<close> returns the failure result with the message of the
  exception instead of raising; the endpoint answers with status 500 and that message,
  leaves the model store as it was, so that it predicts as before, and leaves the flag
  cleared. In general the endpoint changes the model store only when the result reports
  success.
\<close>

theorem failed_training_keeps_loaded_model:
  "(\<not> training_in_progress (training_service s) \<and>
    (gtm = Inl e \<or>
     (\<exists>tm w'. gtm = Inr tm \<and>
        tm (req_n_samples request) (req_random_seed request)
           (model_path (training_service s)) (world s) = (Inl e, w'))) \<longrightarrow>
    fst (TrainingService_train gtm (req_n_samples request) (req_random_seed request)
           (training_service s, world s)) = Inr (TrainFailure (str_of e)) \<and>
    fst (train gtm read request s) = Inl (HTTPException 500 (str_of e)) \<and>
    model (snd (train gtm read request s)) = model s \<and>
    predict (model (snd (train gtm read request s))) r = predict (model s) r \<and>
    \<not> is_training (training_service (snd (train gtm read request s)))) \<and>
   (model (snd (train gtm read request s)) \<noteq> model s \<longrightarrow>
      (\<exists>res. fst (train gtm read request s) = Inr res \<and> success res))"
  by (auto simp: train_def TrainingService_train_def train_enter_def Let_def is_training_def
           split: sum.splits prod.splits train_result.splits)

text \<open>The claim at a training function that raises while a store is in place.\<close>

theorem failed_training_witness:
  "\<not> training_in_progress
     (training_service
        \<lparr>model = LoadFailed ''old'',
         training_service = \<lparr>model_path = None, training_in_progress = False\<rparr>,
         world = ()\<rparr>) \<and>
   fst (train (Inr (\<lambda>n s p w. (Inl (ValueError ''fit failed''), w))
            :: py_exception + (unit, unit) train_model_func)
         (\<lambda>w. Inl (Exception ''no artifact''))
         \<lparr>req_n_samples = Some 3000, req_random_seed = Some 42\<rparr>
         \<lparr>model = LoadFailed ''old'',
          training_service = \<lparr>model_path = None, training_in_progress = False\<rparr>,
          world = ()\<rparr>) = Inl (HTTPException 500 ''fit failed'') \<and>
   model (snd (train (Inr (\<lambda>n s p w. (Inl (ValueError ''fit failed''), w))
            :: py_exception + (unit, unit) train_model_func)
         (\<lambda>w. Inl (Exception ''no artifact''))
         \<lparr>req_n_samples = Some 3000, req_random_seed = Some 42\<rparr>
         \<lparr>model = LoadFailed ''old'',
          training_service = \<lparr>model_path = None, training_in_progress = False\<rparr>,
          world = ()\<rparr>)) = LoadFailed ''old''"
  (is "?h \<and> fst (train ?g ?r ?q ?s) = _ \<and> _")
proof -
  let ?e = "ValueError ''fit failed''"
  have h: "\<not> training_in_progress (training_service ?s) \<and>
    (?g = Inl ?e \<or>
     (\<exists>tm w'. ?g = Inr tm \<and>
        tm (req_n_samples ?q) (req_random_seed ?q)
           (model_path (training_service ?s)) (world ?s) = (Inl ?e, w')))"
    by simp
  from failed_training_keeps_loaded_model
         [where s = ?s and gtm = ?g and e = ?e and request = ?q and read = ?r] h
  have "fst (train ?g ?r ?q ?s) = Inl (HTTPException 500 (str_of ?e)) \<and>
        model (snd (train ?g ?r ?q ?s)) = model ?s"
    by blast
  then show ?thesis by simp
qed

lemma run_call_from_check:
  "run_call False AtCheck = [(False, AtSet), (True, AtCall), (True, AtClear), (False, Returned)]"
  by (simp add: run_call.simps)

lemma run_call_rejected: "run_call True AtCheck = [(True, Raised)]"
  by (simp add: run_call.simps)


text \<open>
  The statement-by-statement model agrees with \<open>TrainingService_train\<close>: a call run to
  its end leaves the flag as the function leaves it, and it ends in the \<^verbatim>\<open>raise\<close>
  exactly when the function raises.
\<close>

lemma run_call_agrees:
  "fst (last (run_call (training_in_progress svc) AtCheck)) =
     training_in_progress (fst (snd (TrainingService_train gtm n seed (svc, w)))) \<and>
   (snd (last (run_call (training_in_progress svc) AtCheck)) = Raised) =
     (\<exists>e. fst (TrainingService_train gtm n seed (svc, w)) = Inl e)"
  by (cases "training_in_progress svc")
     (auto simp: run_call_from_check run_call_rejected TrainingService_train_def train_enter_def
                 Let_def split: sum.splits prod.splits)






section \<open>Properties of the request schema\<close>

lemma in_PredictRequest_errors:
  assumes "i < length cs" and "f \<in> set (CandidateRequest_errors (cs ! i))"
  shows "(Some i, f) \<in> set (PredictRequest_errors cs)"
proof -
  let ?g = "\<lambda>(i, c). map (\<lambda>f. (Some i, f)) (CandidateRequest_errors c)"
  from assms(1) have ne: "\<not> length cs < 1" by auto
  from assms(1) have "(i, cs ! i) \<in> set (enumerate 0 cs)"
    by (simp add: in_set_enumerate_eq)
  then have "?g (i, cs ! i) \<in> ?g ` set (enumerate 0 cs)"
    by (rule imageI)
  moreover from assms(2) have "(Some i, f) \<in> set (?g (i, cs ! i))"
    by simp
  ultimately have "(Some i, f) \<in> set (concat (map ?g (enumerate 0 cs)))"
    unfolding set_concat set_map by (rule UN_I)
  then show ?thesis
    unfolding PredictRequest_errors_def by (simp only: if_not_P [OF ne])
qed

lemma api_predict_invalid:
  assumes "e \<in> set (PredictRequest_errors cs)"
  shows "api_predict st cs = Inl (RequestValidationError (PredictRequest_errors cs))"
proof (cases "PredictRequest_errors cs")
  case Nil
  with assms show ?thesis by simp
next
  case (Cons x xs)
  then show ?thesis by (simp add: api_predict_def)
qed

lemma distance_m_error: "distance_m c < 0 \<Longrightarrow> ''distance_m'' \<in> set (CandidateRequest_errors c)"
  by (simp add: CandidateRequest_errors_def Field_def)

lemma distance_cat_error:
  "distance_cat c < 0 \<or> 2 < distance_cat c \<Longrightarrow> ''distance_cat'' \<in> set (CandidateRequest_errors c)"
  by (simp add: CandidateRequest_errors_def Field_def) linarith

lemma past_perf_error:
  "past_perf c < 1 \<or> 10 < past_perf c \<Longrightarrow> ''past_perf'' \<in> set (CandidateRequest_errors c)"
  by (simp add: CandidateRequest_errors_def Field_def) linarith

lemma fault_history_error:
  "fault_history c < 0 \<Longrightarrow> ''fault_history'' \<in> set (CandidateRequest_errors c)"
  by (simp add: CandidateRequest_errors_def Field_def)

lemma fatigue_h_error:
  "fatigue_h c < 0 \<or> 24 < fatigue_h c \<Longrightarrow> ''fatigue_h'' \<in> set (CandidateRequest_errors c)"
  by (simp add: CandidateRequest_errors_def Field_def) linarith

lemma fault_severity_error:
  "fault_severity c < 1 \<or> 3 < fault_severity c \<Longrightarrow> ''fault_severity'' \<in> set (CandidateRequest_errors c)"
  by (simp add: CandidateRequest_errors_def Field_def) linarith


text \<open>
  Claim C8. A request in which the candidate at some index has a field outside its
  bounds (distance below 0, distance category outside 0..2, past performance outside
  1..10, fault history below 0, fatigue outside 0..24, severity outside 1..3) is
  answered with a validation error that names that candidate and that field, whatever
  the state of the model store; its status is a client error and not a server fault. A
  request with no candidate is answered with a validation error that names the list.
\<close>

theorem out_of_bounds_field_is_client_error:
  assumes "i < length cs"
    and "f = ''distance_m'' \<and> distance_m (cs ! i) < 0 \<or>
         f = ''distance_cat'' \<and> (distance_cat (cs ! i) < 0 \<or> 2 < distance_cat (cs ! i)) \<or>
         f = ''past_perf'' \<and> (past_perf (cs ! i) < 1 \<or> 10 < past_perf (cs ! i)) \<or>
         f = ''fault_history'' \<and> fault_history (cs ! i) < 0 \<or>
         f = ''fatigue_h'' \<and> (fatigue_h (cs ! i) < 0 \<or> 24 < fatigue_h (cs ! i)) \<or>
         f = ''fault_severity'' \<and> (fault_severity (cs ! i) < 1 \<or> 3 < fault_severity (cs ! i))"
  shows "\<exists>errs. api_predict st cs = Inl (RequestValidationError errs) \<and>
           (Some i, f) \<in> set errs \<and>
           client_error (status_code (RequestValidationError errs)) \<and>
           \<not> server_fault (status_code (RequestValidationError errs)) \<and>
           api_predict st [] = Inl (RequestValidationError [(None, ''candidates'')])"
proof -
  from assms(2) have "f \<in> set (CandidateRequest_errors (cs ! i))"
    by (elim disjE conjE)
       (simp_all add: distance_m_error distance_cat_error past_perf_error
          fault_history_error fatigue_h_error fault_severity_error)
  with assms(1) have m: "(Some i, f) \<in> set (PredictRequest_errors cs)"
    by (rule in_PredictRequest_errors)
  have e: "api_predict st [] = Inl (RequestValidationError [(None, ''candidates'')])"
    by (simp add: api_predict_def PredictRequest_errors_def)
  have s: "client_error (status_code (RequestValidationError (PredictRequest_errors cs))) \<and>
           \<not> server_fault (status_code (RequestValidationError (PredictRequest_errors cs)))"
    by (simp add: client_error_def server_fault_def)
  from m api_predict_invalid [OF m, of st] e s show ?thesis by blast
qed

text \<open>The claim at a candidate whose severity is 5.\<close>

theorem out_of_bounds_field_witness:
  "(0::nat) < length [\<lparr>distance_m = 1250, distance_cat = 1, past_perf = 8, fault_history = 2,
                       fatigue_h = 4, fault_severity = 5\<rparr>] \<and>
   3 < fault_severity ([\<lparr>distance_m = 1250, distance_cat = 1, past_perf = 8, fault_history = 2,
                       fatigue_h = 4, fault_severity = 5\<rparr>] ! 0) \<and>
   (\<exists>errs. api_predict NotLoaded
        [\<lparr>distance_m = 1250, distance_cat = 1, past_perf = 8, fault_history = 2,
          fatigue_h = 4, fault_severity = 5\<rparr>] = Inl (RequestValidationError errs) \<and>
      (Some 0, ''fault_severity'') \<in> set errs \<and>
      status_code (RequestValidationError errs) = 422)"
  (is "?len \<and> ?bad \<and> (\<exists>errs. api_predict NotLoaded ?cs = _ \<and> _ \<and> _)")
proof -
  let ?c = "?cs ! 0"
  have l: ?len by simp
  have b: ?bad by simp
  have d: "''fault_severity'' = ''distance_m'' \<and> distance_m ?c < 0 \<or>
         ''fault_severity'' = ''distance_cat'' \<and> (distance_cat ?c < 0 \<or> 2 < distance_cat ?c) \<or>
         ''fault_severity'' = ''past_perf'' \<and> (past_perf ?c < 1 \<or> 10 < past_perf ?c) \<or>
         ''fault_severity'' = ''fault_history'' \<and> fault_history ?c < 0 \<or>
         ''fault_severity'' = ''fatigue_h'' \<and> (fatigue_h ?c < 0 \<or> 24 < fatigue_h ?c) \<or>
         ''fault_severity'' = ''fault_severity'' \<and> (fault_severity ?c < 1 \<or> 3 < fault_severity ?c)"
    by simp
  from out_of_bounds_field_is_client_error [OF l d, of NotLoaded]
  obtain errs where e1: "api_predict NotLoaded ?cs = Inl (RequestValidationError errs)"
    and e2: "(Some 0, ''fault_severity'') \<in> set errs"
    by blast
  have e3: "status_code (RequestValidationError errs) = 422" by simp
  from l b e1 e2 e3 show ?thesis by blast
qed

section \<open>Properties of the training script\<close>

subsection \<open>Reproducibility\<close>









subsection \<open>Persistence of the artifact\<close>












subsection \<open>The rule-based label\<close>

lemma length_series_add: "length (series_add xs ys) = min (length xs) (length ys)"
  by (simp add: series_add_def)

lemma nth_series_add:
  "i < length xs \<Longrightarrow> i < length ys \<Longrightarrow> series_add xs ys ! i = xs ! i + ys ! i"
  by (simp add: series_add_def)

lemma length_series_scale: "length (series_scale k xs) = length xs"
  by (simp add: series_scale_def)

lemma nth_series_scale: "i < length xs \<Longrightarrow> series_scale k xs ! i = k * xs ! i"
  by (simp add: series_scale_def)

lemma length_rule_score_of: "well_formed df \<Longrightarrow> length (rule_score_of df) = n_rows df"
  by (simp add: rule_score_of_def well_formed_def n_rows_def Let_def
        length_series_add length_series_scale)

lemma nth_rule_score_of:
  assumes "well_formed df" and "i < n_rows df"
  shows "rule_score_of df ! i =
     45 / 100 * dist_score_of (series_max (col_distance_m df)) (col_distance_m df ! i) +
     25 / 100 * fh_score_of (series_max (map of_int (col_fault_history df)))
                            (of_int (col_fault_history df ! i)) +
     15 / 100 * clip 0 1 (1 - col_fatigue_h df ! i / 24) +
     5 / 100 * (of_int (col_fault_severity df ! i) / 3) +
     10 / 100 * (col_past_perf df ! i / 10)"
  using assms
  by (simp add: rule_score_of_def well_formed_def n_rows_def Let_def
        length_series_add length_series_scale nth_series_add nth_series_scale)

lemma length_calculate: "length (calculate_rule_based_score df) = length (rule_score_of df)"
  by (simp add: calculate_rule_based_score_def Let_def)

lemma nth_calculate:
  assumes "i < length (rule_score_of df)"
  shows "calculate_rule_based_score df ! i =
     map_option (\<lambda>q. q * 100)
       (float_div (rule_score_of df ! i - series_min (rule_score_of df))
                  (series_max (rule_score_of df) - series_min (rule_score_of df)))"
  using assms by (simp add: calculate_rule_based_score_def Let_def)

lemma series_min_le: "i < length xs \<Longrightarrow> series_min xs \<le> xs ! i"
  by (simp add: series_min_def)

lemma series_max_ge: "i < length xs \<Longrightarrow> xs ! i \<le> series_max xs"
  by (simp add: series_max_def)

lemma clip_range: "0 \<le> clip 0 1 x \<and> clip 0 1 x \<le> 1"
  by (simp add: clip_def)


lemma score_ranges:
  "0 \<le> dist_score_of mx d \<and> dist_score_of mx d \<le> 1 \<and>
   0 \<le> fh_score_of mh h \<and> fh_score_of mh h \<le> 1"
  by (simp add: dist_score_of_def fh_score_of_def clip_def)

lemma normalised_range:
  fixes r lo hi :: real
  assumes "lo \<le> r" and "r \<le> hi" and "lo \<noteq> hi"
  shows "0 \<le> (r - lo) / (hi - lo) * 100 \<and> (r - lo) / (hi - lo) * 100 \<le> 100"
proof -
  define q where "q = (r - lo) / (hi - lo)"
  from assms have pos: "0 < hi - lo" by simp
  from assms(1) pos have a: "0 \<le> q" unfolding q_def by simp
  from assms(2) pos have b: "q \<le> 1" unfolding q_def by simp
  from a b have "0 \<le> q * 100 \<and> q * 100 \<le> 100" by simp
  then show ?thesis unfolding q_def .
qed


lemma rule_score_of_example:
  "rule_score_of 
     \<lparr>col_distance_m = [0, 1000, 1000], col_past_perf = [5, 10, 5],
      col_fault_history = [1, 1, 1], col_fatigue_h = [0, 0, 0],
      col_fault_severity = [3, 3, 3], col_distance_cat = [0, 1, 1]\<rparr> =
     [9500007 / 10000010, 2200001204000003 / 4000004004000004,
      5000002509500007 / 10000010010000010]"
  by (simp add: rule_score_of_def Let_def series_add_def series_scale_def series_max_def
        dist_score_of_def fh_score_of_def clip_def)

lemma spec_rule_score_of_example:
  "spec_rule_score_of 
     \<lparr>col_distance_m = [0, 1000, 1000], col_past_perf = [5, 10, 5],
      col_fault_history = [1, 1, 1], col_fatigue_h = [0, 0, 0],
      col_fault_severity = [3, 3, 3], col_distance_cat = [0, 1, 1]\<rparr> = [19 / 20, 11 / 20, 1 / 2]"
  by (simp add: spec_rule_score_of_def Let_def series_add_def series_scale_def series_max_def
        clip_def)


text \<open>
  Claim C5, as amended. For every table whose weighted rule scores are not all equal,
  the weighted rule score of each row is 0.45 times the distance score, plus 0.25 times
  the fault-history score, plus 0.15 times the fatigue score, plus 0.05 times the
  severity score, plus 0.10 times the performance score, the weights summing to 1. The
  distance score is 1 - distance / (max\_distance + 1e-6) clipped to [0,1], the
  fault-history score is history / (max\_history + 1e-6) clipped to [0,1], the fatigue
  score is 1 - fatigue / 24 clipped to [0,1], the severity score is severity / 3 and the
  performance score is perf / 10. The label of the row is the weighted rule score
  min-max normalised across the table, times 100; it lies in [0,100].
\<close>

theorem rule_based_label_formula:
  assumes "well_formed df" and "i < n_rows df"
    and "series_min (rule_score_of df) \<noteq> series_max (rule_score_of df)"
  shows
    "rule_score_of df ! i =
       45 / 100 * dist_score_of (series_max (col_distance_m df)) (col_distance_m df ! i) +
       25 / 100 * fh_score_of (series_max (map of_int (col_fault_history df)))
                              (of_int (col_fault_history df ! i)) +
       15 / 100 * clip 0 1 (1 - col_fatigue_h df ! i / 24) +
       5 / 100 * (of_int (col_fault_severity df ! i) / 3) +
       10 / 100 * (col_past_perf df ! i / 10) \<and>
     (mx + 1 / 1000000 \<noteq> 0 \<longrightarrow>
        dist_score_of mx d = clip 0 1 (1 - d / (mx + 1 / 1000000))) \<and>
     fh_score_of mh h = clip 0 1 (h / (mh + 1 / 1000000)) \<and>
     0 \<le> dist_score_of mx d \<and> dist_score_of mx d \<le> 1 \<and>
     0 \<le> fh_score_of mh h \<and> fh_score_of mh h \<le> 1 \<and>
     45 / 100 + 25 / 100 + 15 / 100 + 5 / 100 + 10 / 100 = (1::real) \<and>
     length (calculate_rule_based_score df) = n_rows df \<and>
     calculate_rule_based_score df ! i =
       Some ((rule_score_of df ! i - series_min (rule_score_of df)) /
             (series_max (rule_score_of df) - series_min (rule_score_of df)) * 100) \<and>
     (\<exists>l. calculate_rule_based_score df ! i = Some l \<and> 0 \<le> l \<and> l \<le> 100)"
proof -
  let ?rs = "rule_score_of df"
  from assms have i: "i < length ?rs" by (simp add: length_rule_score_of)
  have f: "?rs ! i =
       45 / 100 * dist_score_of (series_max (col_distance_m df)) (col_distance_m df ! i) +
       25 / 100 * fh_score_of (series_max (map of_int (col_fault_history df)))
                              (of_int (col_fault_history df ! i)) +
       15 / 100 * clip 0 1 (1 - col_fatigue_h df ! i / 24) +
       5 / 100 * (of_int (col_fault_severity df ! i) / 3) +
       10 / 100 * (col_past_perf df ! i / 10)"
    using assms(1,2) by (rule nth_rule_score_of)
  have d: "mx + 1 / 1000000 \<noteq> 0 \<longrightarrow>
        dist_score_of mx d = clip 0 1 (1 - d / (mx + 1 / 1000000))"
    by (simp add: dist_score_of_def)
  have h: "fh_score_of mh h = clip 0 1 (h / (mh + 1 / 1000000))"
    by (simp add: fh_score_of_def)
  have w: "45 / 100 + 25 / 100 + 15 / 100 + 5 / 100 + 10 / 100 = (1::real)" by simp
  have n: "length (calculate_rule_based_score df) = n_rows df"
    using assms(1) by (simp add: length_calculate length_rule_score_of)
  from assms(3) have nz: "series_max ?rs - series_min ?rs \<noteq> 0" by simp
  have l: "calculate_rule_based_score df ! i =
       Some ((?rs ! i - series_min ?rs) / (series_max ?rs - series_min ?rs) * 100)"
    using nz by (simp add: nth_calculate [OF i] float_div_def)
  have r: "0 \<le> (?rs ! i - series_min ?rs) / (series_max ?rs - series_min ?rs) * 100 \<and>
           (?rs ! i - series_min ?rs) / (series_max ?rs - series_min ?rs) * 100 \<le> 100"
    using series_min_le [OF i] series_max_ge [OF i] assms(3) by (rule normalised_range)
  from f d h w n l r score_ranges [of mx d mh h] show ?thesis by blast
qed


text \<open>
  The amended claim at a table of three rows, for the second row.
\<close>

theorem rule_based_label_witness:
  "well_formed 
     \<lparr>col_distance_m = [0, 1000, 1000], col_past_perf = [5, 10, 5],
      col_fault_history = [1, 1, 1], col_fatigue_h = [0, 0, 0],
      col_fault_severity = [3, 3, 3], col_distance_cat = [0, 1, 1]\<rparr> \<and> 1 < n_rows 
     \<lparr>col_distance_m = [0, 1000, 1000], col_past_perf = [5, 10, 5],
      col_fault_history = [1, 1, 1], col_fatigue_h = [0, 0, 0],
      col_fault_severity = [3, 3, 3], col_distance_cat = [0, 1, 1]\<rparr> \<and>
   series_min (rule_score_of 
     \<lparr>col_distance_m = [0, 1000, 1000], col_past_perf = [5, 10, 5],
      col_fault_history = [1, 1, 1], col_fatigue_h = [0, 0, 0],
      col_fault_severity = [3, 3, 3], col_distance_cat = [0, 1, 1]\<rparr>) \<noteq> series_max (rule_score_of 
     \<lparr>col_distance_m = [0, 1000, 1000], col_past_perf = [5, 10, 5],
      col_fault_history = [1, 1, 1], col_fatigue_h = [0, 0, 0],
      col_fault_severity = [3, 3, 3], col_distance_cat = [0, 1, 1]\<rparr>) \<and>
   calculate_rule_based_score 
     \<lparr>col_distance_m = [0, 1000, 1000], col_past_perf = [5, 10, 5],
      col_fault_history = [1, 1, 1], col_fatigue_h = [0, 0, 0],
      col_fault_severity = [3, 3, 3], col_distance_cat = [0, 1, 1]\<rparr> ! 1 = Some (1000000001 / 90000000) \<and>
   (\<exists>l. calculate_rule_based_score 
     \<lparr>col_distance_m = [0, 1000, 1000], col_past_perf = [5, 10, 5],
      col_fault_history = [1, 1, 1], col_fatigue_h = [0, 0, 0],
      col_fault_severity = [3, 3, 3], col_distance_cat = [0, 1, 1]\<rparr> ! 1 = Some l \<and> 0 \<le> l \<and> l \<le> 100)"
proof -
  let ?df = "
     \<lparr>col_distance_m = [0, 1000, 1000], col_past_perf = [5, 10, 5],
      col_fault_history = [1, 1, 1], col_fatigue_h = [0, 0, 0],
      col_fault_severity = [3, 3, 3], col_distance_cat = [0, 1, 1]\<rparr>"
  have wf: "well_formed ?df" by (simp add: well_formed_def n_rows_def)
  have i: "1 < n_rows ?df" by (simp add: n_rows_def)
  have ne: "series_min (rule_score_of ?df) \<noteq> series_max (rule_score_of ?df)"
    by (simp add: rule_score_of_example series_min_def series_max_def)
  from rule_based_label_formula [OF wf i ne]
  have l: "calculate_rule_based_score ?df ! 1 =
       Some ((rule_score_of ?df ! 1 - series_min (rule_score_of ?df)) /
             (series_max (rule_score_of ?df) - series_min (rule_score_of ?df)) * 100)"
    and r: "\<exists>l. calculate_rule_based_score ?df ! 1 = Some l \<and> 0 \<le> l \<and> l \<le> 100"
    by blast+
  from l have v: "calculate_rule_based_score ?df ! 1 = Some (1000000001 / 90000000)"
    by (simp add: rule_score_of_example series_min_def series_max_def)
  from wf i ne v r show ?thesis by blast
qed


text \<open>
  Claim C5 as stated fails: the code divides by the largest distance plus 1e-6 and by
  the largest count plus 1e-6, not by the largest distance and count themselves. At a
  table of three rows the label of the second row is 1000000001 / 90000000 by the code
  and 100 / 9 by the claim.
\<close>

theorem rule_label_differs_from_spec_formula:
  "calculate_rule_based_score 
     \<lparr>col_distance_m = [0, 1000, 1000], col_past_perf = [5, 10, 5],
      col_fault_history = [1, 1, 1], col_fatigue_h = [0, 0, 0],
      col_fault_severity = [3, 3, 3], col_distance_cat = [0, 1, 1]\<rparr> ! 1 = Some (1000000001 / 90000000) \<and>
   spec_rule_based_label 
     \<lparr>col_distance_m = [0, 1000, 1000], col_past_perf = [5, 10, 5],
      col_fault_history = [1, 1, 1], col_fatigue_h = [0, 0, 0],
      col_fault_severity = [3, 3, 3], col_distance_cat = [0, 1, 1]\<rparr> ! 1 = Some (100 / 9) \<and>
   calculate_rule_based_score 
     \<lparr>col_distance_m = [0, 1000, 1000], col_past_perf = [5, 10, 5],
      col_fault_history = [1, 1, 1], col_fatigue_h = [0, 0, 0],
      col_fault_severity = [3, 3, 3], col_distance_cat = [0, 1, 1]\<rparr> \<noteq> spec_rule_based_label 
     \<lparr>col_distance_m = [0, 1000, 1000], col_past_perf = [5, 10, 5],
      col_fault_history = [1, 1, 1], col_fatigue_h = [0, 0, 0],
      col_fault_severity = [3, 3, 3], col_distance_cat = [0, 1, 1]\<rparr>"
proof -
  have a: "calculate_rule_based_score 
     \<lparr>col_distance_m = [0, 1000, 1000], col_past_perf = [5, 10, 5],
      col_fault_history = [1, 1, 1], col_fatigue_h = [0, 0, 0],
      col_fault_severity = [3, 3, 3], col_distance_cat = [0, 1, 1]\<rparr> ! 1 = Some (1000000001 / 90000000)"
    by (simp add: calculate_rule_based_score_def rule_score_of_example Let_def
          series_min_def series_max_def float_div_def)
  have b: "spec_rule_based_label 
     \<lparr>col_distance_m = [0, 1000, 1000], col_past_perf = [5, 10, 5],
      col_fault_history = [1, 1, 1], col_fatigue_h = [0, 0, 0],
      col_fault_severity = [3, 3, 3], col_distance_cat = [0, 1, 1]\<rparr> ! 1 = Some (100 / 9)"
    by (simp add: spec_rule_based_label_def spec_rule_score_of_example Let_def
          series_min_def series_max_def float_div_def)
  from a b have "calculate_rule_based_score 
     \<lparr>col_distance_m = [0, 1000, 1000], col_past_perf = [5, 10, 5],
      col_fault_history = [1, 1, 1], col_fatigue_h = [0, 0, 0],
      col_fault_severity = [3, 3, 3], col_distance_cat = [0, 1, 1]\<rparr> ! 1 \<noteq> spec_rule_based_label 
     \<lparr>col_distance_m = [0, 1000, 1000], col_past_perf = [5, 10, 5],
      col_fault_history = [1, 1, 1], col_fatigue_h = [0, 0, 0],
      col_fault_severity = [3, 3, 3], col_distance_cat = [0, 1, 1]\<rparr> ! 1"
    by simp
  then have "calculate_rule_based_score 
     \<lparr>col_distance_m = [0, 1000, 1000], col_past_perf = [5, 10, 5],
      col_fault_history = [1, 1, 1], col_fatigue_h = [0, 0, 0],
      col_fault_severity = [3, 3, 3], col_distance_cat = [0, 1, 1]\<rparr> \<noteq> spec_rule_based_label 
     \<lparr>col_distance_m = [0, 1000, 1000], col_past_perf = [5, 10, 5],
      col_fault_history = [1, 1, 1], col_fatigue_h = [0, 0, 0],
      col_fault_severity = [3, 3, 3], col_distance_cat = [0, 1, 1]\<rparr>" by auto
  with a b show ?thesis by blast
qed


subsection \<open>The unguarded normalisation\<close>

lemma constant_series:
  assumes "xs \<noteq> []" and "\<forall>x \<in> set xs. x = c"
  shows "series_min xs = c \<and> series_max xs = c"
proof -
  from assms have "set xs = {c}" by (cases xs) auto
  then show ?thesis by (simp add: series_min_def series_max_def)
qed


text \<open>
  Claim C10. The normalisation divides by the difference of the largest and the smallest
  weighted rule score, and nothing guards the divisor. For a table with a single row,
  and for every table with a row in which all weighted rule scores are equal, the
  divisor is zero and the label of every row is not a number.
\<close>

theorem unguarded_normalisation_divides_by_zero:
  "well_formed df \<longrightarrow>
     (n_rows df = 1 \<longrightarrow> calculate_rule_based_score df = [None]) \<and>
     (0 < n_rows df \<and> (\<forall>r \<in> set (rule_score_of df). r = c) \<longrightarrow>
        series_max (rule_score_of df) - series_min (rule_score_of df) = 0 \<and>
        calculate_rule_based_score df = replicate (n_rows df) None)"
proof (intro impI conjI)
  assume wf: "well_formed df" and one: "n_rows df = 1"
  from wf one have "length (rule_score_of df) = 1" by (simp add: length_rule_score_of)
  then obtain r where r: "rule_score_of df = [r]"
    by (cases "rule_score_of df") auto
  then show "calculate_rule_based_score df = [None]"
    by (simp add: calculate_rule_based_score_def Let_def series_min_def series_max_def
          float_div_def)
next
  assume wf: "well_formed df"
    and h: "0 < n_rows df \<and> (\<forall>r \<in> set (rule_score_of df). r = c)"
  from wf h have ne: "rule_score_of df \<noteq> []" using length_rule_score_of [of df] by auto
  from constant_series [OF ne] h
  have mm: "series_min (rule_score_of df) = c \<and> series_max (rule_score_of df) = c" by blast
  then show "series_max (rule_score_of df) - series_min (rule_score_of df) = 0" by simp
  from mm have "calculate_rule_based_score df = map (\<lambda>r. None) (rule_score_of df)"
    by (simp add: calculate_rule_based_score_def Let_def float_div_def)
  also have "\<dots> = replicate (length (rule_score_of df)) None"
    by (simp add: map_replicate_const)
  finally show "calculate_rule_based_score df = replicate (n_rows df) None"
    using wf by (simp add: length_rule_score_of)
qed


text \<open>
  The claim at a table with a single row and at a table with two equal rows.
\<close>

theorem single_row_label_witness:
  "well_formed \<lparr>col_distance_m = [1250], col_past_perf = [8], col_fault_history = [2],
          col_fatigue_h = [4], col_fault_severity = [3], col_distance_cat = [1]\<rparr> \<and>
   n_rows \<lparr>col_distance_m = [1250], col_past_perf = [8], col_fault_history = [2],
          col_fatigue_h = [4], col_fault_severity = [3], col_distance_cat = [1]\<rparr> = 1 \<and>
   calculate_rule_based_score
     \<lparr>col_distance_m = [1250], col_past_perf = [8], col_fault_history = [2],
          col_fatigue_h = [4], col_fault_severity = [3], col_distance_cat = [1]\<rparr> = [None] \<and>
   well_formed \<lparr>col_distance_m = [1250, 1250], col_past_perf = [8, 8], col_fault_history = [2, 2],
          col_fatigue_h = [4, 4], col_fault_severity = [3, 3], col_distance_cat = [1, 1]\<rparr> \<and>
   0 < n_rows \<lparr>col_distance_m = [1250, 1250], col_past_perf = [8, 8], col_fault_history = [2, 2],
          col_fatigue_h = [4, 4], col_fault_severity = [3, 3], col_distance_cat = [1, 1]\<rparr> \<and>
   calculate_rule_based_score
     \<lparr>col_distance_m = [1250, 1250], col_past_perf = [8, 8], col_fault_history = [2, 2],
          col_fatigue_h = [4, 4], col_fault_severity = [3, 3], col_distance_cat = [1, 1]\<rparr> = [None, None]"
proof -
  let ?df = "\<lparr>col_distance_m = [1250], col_past_perf = [8], col_fault_history = [2],
          col_fatigue_h = [4], col_fault_severity = [3], col_distance_cat = [1]\<rparr>"
  let ?df' = "\<lparr>col_distance_m = [1250, 1250], col_past_perf = [8, 8], col_fault_history = [2, 2],
          col_fatigue_h = [4, 4], col_fault_severity = [3, 3], col_distance_cat = [1, 1]\<rparr>"
  have wf: "well_formed ?df" by (simp add: well_formed_def n_rows_def)
  have one: "n_rows ?df = 1" by (simp add: n_rows_def)
  from unguarded_normalisation_divides_by_zero [where df = ?df] wf one
  have a: "calculate_rule_based_score ?df = [None]" by blast
  have wf': "well_formed ?df'" by (simp add: well_formed_def n_rows_def)
  have two: "n_rows ?df' = 2" by (simp add: n_rows_def)
  have eq: "\<forall>r \<in> set (rule_score_of ?df'). r = rule_score_of ?df' ! 0"
    by (simp add: rule_score_of_def Let_def series_add_def series_scale_def)
  from unguarded_normalisation_divides_by_zero
         [where df = ?df' and c = "rule_score_of ?df' ! 0"] wf' two eq
  have "calculate_rule_based_score ?df' = replicate (n_rows ?df') None" by simp
  with two have b: "calculate_rule_based_score ?df' = [None, None]"
    by (simp add: numeral_2_eq_2)
  from wf one a wf' two b show ?thesis by simp
qed

end
